theory Spec2Isabelle
  imports Main "HOL-Library.Word"
begin

section \<open>The session custody core (package signer, SessionManager)\<close>

text \<open>
  The manager keeps one session key sealed in a memguard enclave, together with an expiry
  instant and a cumulative spend counter. Every exported method takes the manager's lock
  for its whole body, so each call is one atomic step on the record of fields below, and
  the lock itself is not part of the state.

  Conventions of the embedding:
  \<^item> a \<^verbatim>\<open>*big.Int\<close> that the code never leaves nil is an \<^typ>\<open>int\<close>; the field
    \<^verbatim>\<open>maxValueLimit\<close>, which is nil before the first activation and after every
    teardown, is an \<^typ>\<open>int option\<close>. The big integers handed to \<^verbatim>\<open>Activate\<close> and
    \<^verbatim>\<open>Sign\<close> are non-nil, as the handler always passes them;
  \<^item> an instant (\<^verbatim>\<open>time.Time\<close>) is a number of nanoseconds on one unbounded clock and
    a \<^verbatim>\<open>time.Duration\<close> a number of nanoseconds; every reading of \<^verbatim>\<open>time.Now()\<close> is
    an argument of the operation that takes it;
  \<^item> the memguard library is outside the repository: the two calls into it,
    \<^verbatim>\<open>memguard.NewEnclave\<close> and \<^verbatim>\<open>Enclave.Open\<close>, are arguments of the operations
    that make them. \<^verbatim>\<open>NewEnclave\<close> returns a pointer, which may be nil (the library
    documents a nil result for an empty buffer), and the manager counts as holding a
    session exactly when the stored pointer is not nil; \<^verbatim>\<open>Open\<close> returns a locked
    buffer or an error of the library, given here by its message.
\<close>

type_synonym bytes = "8 word list"

datatype Enclave = Enclave bytes

record SessionManager =
  enclave :: "Enclave option"
  address :: string
  expiresAt :: int
  maxValueLimit :: "int option"
  valueUsed :: int
  ttl :: int

text \<open>
  What \<^verbatim>\<open>Sign\<close> can return in place of a signature: the three sentinel errors of the
  package, the error of \<^verbatim>\<open>Enclave.Open\<close> passed on as it is, and, last, not an error
  value but the run-time panic of \<^verbatim>\<open>Cmp\<close> on a nil limit.
\<close>

datatype sign_failure =
    ErrNoActiveSession
  | ErrSessionExpired
  | ErrValueLimitExceeded
  | ErrOpen string
  | NilLimitPanic

definition NewSessionManager :: "int \<Rightarrow> SessionManager" where
  "NewSessionManager d =
     \<lparr>enclave = None, address = [], expiresAt = 0, maxValueLimit = None,
      valueUsed = 0, ttl = d\<rparr>"

definition zero_address :: string where
  "zero_address = ''0x0000000000000000000000000000000000000000''"

definition Activate ::
  "(bytes \<Rightarrow> Enclave option) \<Rightarrow> int \<Rightarrow> bytes \<Rightarrow> int \<Rightarrow> SessionManager
     \<Rightarrow> sign_failure option \<times> SessionManager" where
  "Activate NewEnclave now keyBytes lim sm =
     (None,
      sm\<lparr>enclave := NewEnclave keyBytes,
         expiresAt := now + ttl sm,
         maxValueLimit := Some lim,
         valueUsed := 0,
         address := zero_address\<rparr>)"

definition isExpired :: "int \<Rightarrow> SessionManager \<Rightarrow> bool" where
  "isExpired now sm = (expiresAt sm < now)"

definition destroyLocked :: "SessionManager \<Rightarrow> SessionManager" where
  "destroyLocked sm =
     sm\<lparr>enclave := None, address := [], valueUsed := 0, maxValueLimit := None\<rparr>"

definition Destroy :: "SessionManager \<Rightarrow> SessionManager" where
  "Destroy sm = destroyLocked sm"

definition placeholder_signature :: bytes where
  "placeholder_signature = replicate 65 0"

definition Sign ::
  "(Enclave \<Rightarrow> string + bytes) \<Rightarrow> int \<Rightarrow> int \<Rightarrow> SessionManager
     \<Rightarrow> (sign_failure + bytes) \<times> SessionManager" where
  "Sign Open now orderValue sm =
     (case enclave sm of
        None \<Rightarrow> (Inl ErrNoActiveSession, sm)
      | Some e \<Rightarrow>
          if isExpired now sm then (Inl ErrSessionExpired, destroyLocked sm)
          else
            let newTotal = valueUsed sm + orderValue in
            (case maxValueLimit sm of
               None \<Rightarrow> (Inl NilLimitPanic, sm)
             | Some lim \<Rightarrow>
                 if newTotal > lim then (Inl ErrValueLimitExceeded, sm)
                 else
                   (case Open e of
                      Inl msg \<Rightarrow> (Inl (ErrOpen msg), sm)
                    | Inr buf \<Rightarrow> (Inr placeholder_signature, sm\<lparr>valueUsed := newTotal\<rparr>))))"

subsection \<open>Decimal text of a big integer\<close>

definition digit_char :: "nat \<Rightarrow> char" where
  "digit_char d = ''0123456789'' ! d"

fun digits10 :: "nat \<Rightarrow> string" where
  "digits10 n = (if n < 10 then [digit_char n] else digits10 (n div 10) @ [digit_char (n mod 10)])"

declare digits10.simps [simp del]

definition Int_String :: "int \<Rightarrow> string" where
  "Int_String x = (if x < 0 then CHR ''-'' # digits10 (nat (- x)) else digits10 (nat x))"

definition Ptr_String :: "int option \<Rightarrow> string" where
  "Ptr_String p = (case p of None \<Rightarrow> ''<nil>'' | Some x \<Rightarrow> Int_String x)"

subsection \<open>Status\<close>

text \<open>
  \<^verbatim>\<open>Status\<close> reads the clock twice, once in \<^verbatim>\<open>isExpired\<close> and once in
  \<^verbatim>\<open>time.Until\<close>. It holds the read lock and assigns no field: the manager it returns
  is the one it was given, on every path. The remaining time is a number of whole
  seconds; the source goes through a float64 there, whose rounding is not modelled.
\<close>

type_synonym status_reply = "bool \<times> int \<times> string \<times> string \<times> string"

definition inactive_reply :: status_reply where
  "inactive_reply = (False, 0, ''0'', ''0'', [])"

definition Status :: "int \<Rightarrow> int \<Rightarrow> SessionManager \<Rightarrow> status_reply \<times> SessionManager" where
  "Status now1 now2 sm =
     (case enclave sm of
        None \<Rightarrow> (inactive_reply, sm)
      | Some e \<Rightarrow>
          if isExpired now1 sm then (inactive_reply, sm)
          else
            let remaining = expiresAt sm - now2;
                remaining = (if remaining < 0 then 0 else remaining)
            in ((True, remaining div 1000000000, Ptr_String (maxValueLimit sm),
                 Int_String (valueUsed sm), address sm), sm))"

section \<open>The authorization facade (Handler)\<close>

text \<open>
  \<^verbatim>\<open>SignOrder\<close> reads two things of its request: whether the order is present, and the
  order's \<^verbatim>\<open>MakerAmount\<close>, a decimal text parsed with \<^verbatim>\<open>big.Int.SetString(s, 10)\<close>.
  In base 10 that library function accepts one optional sign followed by at least one
  decimal digit and nothing else.
\<close>

definition digit_val :: "char \<Rightarrow> nat option" where
  "digit_val c =
     (let n = (of_char c :: nat) in if 48 \<le> n \<and> n \<le> 57 then Some (n - 48) else None)"

fun scan_digits :: "string \<Rightarrow> nat \<Rightarrow> nat option" where
  "scan_digits [] acc = Some acc"
| "scan_digits (c # cs) acc =
     (case digit_val c of None \<Rightarrow> None | Some d \<Rightarrow> scan_digits cs (10 * acc + d))"

definition SetString :: "string \<Rightarrow> int option" where
  "SetString s =
     (let (neg, r) =
            (case s of
               [] \<Rightarrow> (False, s)
             | c # cs \<Rightarrow>
                 if c = CHR ''-'' then (True, cs)
                 else if c = CHR ''+'' then (False, cs)
                 else (False, s))
      in if r = [] then None
         else (case scan_digits r 0 of
                 None \<Rightarrow> None
               | Some n \<Rightarrow> Some (if neg then - int n else int n)))"

record Order =
  MakerAmount :: string

datatype Code = InvalidArgument | FailedPrecondition | ResourceExhausted | Internal

text \<open>
  A call of the handler ends with a response (signature and signer address), with a gRPC
  status (code and message), or with the panic of the core unwinding through it.
\<close>

datatype rpc_result =
    Response bytes string
  | RpcError Code string
  | RpcPanic

definition SignOrder ::
  "(Enclave \<Rightarrow> string + bytes) \<Rightarrow> int \<Rightarrow> int \<Rightarrow> int \<Rightarrow> Order option \<Rightarrow> SessionManager
     \<Rightarrow> rpc_result \<times> SessionManager" where
  "SignOrder Open now now1 now2 req sm =
     (case req of
        None \<Rightarrow> (RpcError InvalidArgument ''order is required'', sm)
      | Some order \<Rightarrow>
          (case SetString (MakerAmount order) of
             None \<Rightarrow>
               (RpcError InvalidArgument (''invalid maker_amount: '' @ MakerAmount order), sm)
           | Some orderValue \<Rightarrow>
               (case Sign Open now orderValue sm of
                  (Inl err, sm') \<Rightarrow>
                    ((case err of
                        ErrNoActiveSession \<Rightarrow> RpcError FailedPrecondition ''no active session''
                      | ErrSessionExpired \<Rightarrow> RpcError FailedPrecondition ''session expired''
                      | ErrValueLimitExceeded \<Rightarrow>
                          RpcError ResourceExhausted ''cumulative value limit exceeded''
                      | ErrOpen msg \<Rightarrow> RpcError Internal (''signing failed: '' @ msg)
                      | NilLimitPanic \<Rightarrow> RpcPanic), sm')
                | (Inr sig, sm') \<Rightarrow>
                    (case Status now1 now2 sm' of
                       ((_, _, _, _, addr), sm'') \<Rightarrow> (Response sig addr, sm'')))))"

section \<open>Call sequences\<close>

text \<open>
  A call of one of the four operations of the core, with the clock readings and the
  library behaviour it meets. The states a manager can reach are those that a list of
  calls produces from \<^const>\<open>NewSessionManager\<close>.
\<close>

datatype call =
    CallActivate "bytes \<Rightarrow> Enclave option" int bytes int
  | CallSign "Enclave \<Rightarrow> string + bytes" int int
  | CallStatus int int
  | CallDestroy

fun exec :: "call \<Rightarrow> SessionManager \<Rightarrow> SessionManager" where
  "exec (CallActivate NewEnclave now keyBytes lim) sm = snd (Activate NewEnclave now keyBytes lim sm)"
| "exec (CallSign Open now orderValue) sm = snd (Sign Open now orderValue sm)"
| "exec (CallStatus now1 now2) sm = snd (Status now1 now2 sm)"
| "exec CallDestroy sm = Destroy sm"

definition run :: "call list \<Rightarrow> SessionManager \<Rightarrow> SessionManager" where
  "run cs sm = fold exec cs sm"

fun limit_nonneg :: "call \<Rightarrow> bool" where
  "limit_nonneg (CallActivate NewEnclave now keyBytes lim) = (0 \<le> lim)"
| "limit_nonneg (CallSign Open now orderValue) = True"
| "limit_nonneg (CallStatus now1 now2) = True"
| "limit_nonneg CallDestroy = True"

fun order_nonneg :: "call \<Rightarrow> bool" where
  "order_nonneg (CallActivate NewEnclave now keyBytes lim) = True"
| "order_nonneg (CallSign Open now orderValue) = (0 \<le> orderValue)"
| "order_nonneg (CallStatus now1 now2) = True"
| "order_nonneg CallDestroy = True"

section \<open>Sample library behaviour and sample sessions\<close>

text \<open>
  Concrete behaviours of the two library calls, and the managers that short call sequences
  produce with them; the concrete instances of the theorems below are stated on these.
  \<open>seal_nonempty\<close> is the sealing call as the library documents it: nil for an empty
  buffer, an enclave otherwise.
  All of them start from a manager of TTL 60 activated at instant 0, so that the session
  expires after instant 60.
\<close>

definition seal_any :: "bytes \<Rightarrow> Enclave option" where
  "seal_any k = Some (Enclave k)"

definition seal_nonempty :: "bytes \<Rightarrow> Enclave option" where
  "seal_nonempty k = (if k = [] then None else Some (Enclave k))"

definition open_ok :: "Enclave \<Rightarrow> string + bytes" where
  "open_ok e = (case e of Enclave k \<Rightarrow> Inr k)"

definition open_fails :: "Enclave \<Rightarrow> string + bytes" where
  "open_fails e = Inl ''decryption failed''"

definition session_100 :: SessionManager where
  "session_100 = run [CallActivate seal_any 0 [1, 2, 3] 100] (NewSessionManager 60)"

definition session_10 :: SessionManager where
  "session_10 =
     run [CallActivate seal_any 0 [1, 2, 3] 100, CallSign open_ok 5 10] (NewSessionManager 60)"

definition session_full :: SessionManager where
  "session_full =
     run [CallActivate seal_any 0 [1, 2, 3] 100, CallSign open_ok 5 100] (NewSessionManager 60)"

definition session_negative :: SessionManager where
  "session_negative = run [CallActivate seal_any 0 [1, 2, 3] (- 1)] (NewSessionManager 60)"

text \<open>The spend bound as a predicate on managers: a held enclave comes with a limit that
  the counter does not exceed.\<close>

definition within_limit :: "SessionManager \<Rightarrow> bool" where
  "within_limit sm =
     (case enclave sm of
        None \<Rightarrow> True
      | Some e \<Rightarrow> (case maxValueLimit sm of None \<Rightarrow> False | Some lim \<Rightarrow> valueUsed sm \<le> lim))"

section \<open>Auxiliary facts\<close>

lemmas core_defs = Activate_def Sign_def Status_def Destroy_def destroyLocked_def isExpired_def

lemma session_100_eq:
  "session_100 = \<lparr>enclave = Some (Enclave [1, 2, 3]), address = zero_address, expiresAt = 60,
      maxValueLimit = Some 100, valueUsed = 0, ttl = 60\<rparr>"
  by (simp add: session_100_def run_def Activate_def NewSessionManager_def seal_any_def)

lemma session_10_eq: "session_10 = session_100\<lparr>valueUsed := 10\<rparr>"
  by (simp add: session_10_def session_100_eq run_def core_defs NewSessionManager_def
      seal_any_def open_ok_def)

lemma session_full_eq: "session_full = session_100\<lparr>valueUsed := 100\<rparr>"
  by (simp add: session_full_def session_100_eq run_def core_defs NewSessionManager_def
      seal_any_def open_ok_def)

lemma SetString_minus_5: "SetString ''-5'' = Some (- 5)"
  by (simp add: SetString_def digit_val_def)

lemma SetString_5: "SetString ''5'' = Some 5"
  by (simp add: SetString_def digit_val_def)

lemma within_limit_init: "within_limit (NewSessionManager d)"
  by (simp add: within_limit_def NewSessionManager_def)

lemma within_limit_exec:
  "limit_nonneg c \<Longrightarrow> within_limit sm \<Longrightarrow> within_limit (exec c sm)"
  by (cases c)
     (auto simp: within_limit_def core_defs Let_def split: option.splits sum.splits if_splits)

lemma within_limit_run:
  "list_all limit_nonneg cs \<Longrightarrow> within_limit sm \<Longrightarrow> within_limit (run cs sm)"
  unfolding run_def
  by (induction cs arbitrary: sm) (simp_all add: within_limit_exec)

text \<open>A successful \<^const>\<open>Sign\<close> has passed every check of the source, in order.\<close>

lemma Sign_success:
  "Sign Open now v sm = (Inr sg, sm') \<Longrightarrow>
     \<exists>e lim buf. enclave sm = Some e \<and> \<not> isExpired now sm \<and> maxValueLimit sm = Some lim \<and>
       valueUsed sm + v \<le> lim \<and> Open e = Inr buf \<and> sg = placeholder_signature \<and>
       sm' = sm\<lparr>valueUsed := valueUsed sm + v\<rparr>"
  by (auto simp: Sign_def Let_def split: option.splits sum.splits if_splits)

lemma Status_state: "snd (Status now1 now2 sm) = sm"
  by (simp add: Status_def Let_def split: option.splits)

lemma SignOrder_state:
  assumes "SetString (MakerAmount order) = Some v"
  shows "snd (SignOrder Open now n1 n2 (Some order) sm) = snd (Sign Open now v sm)"
proof (cases "Sign Open now v sm")
  case (Pair r sm')
  show ?thesis
  proof (cases r)
    case (Inl err)
    with Pair assms show ?thesis by (simp add: SignOrder_def)
  next
    case (Inr sg)
    have "snd (Status n1 n2 sm') = sm'" by (rule Status_state)
    with Pair Inr assms show ?thesis
      by (cases "Status n1 n2 sm'") (auto simp: SignOrder_def split: prod.splits)
  qed
qed

lemma SignOrder_failure:
  "SetString (MakerAmount order) = Some v \<Longrightarrow> fst (Sign Open now v sm) = Inl err \<Longrightarrow>
     fst (SignOrder Open now n1 n2 (Some order) sm) =
       (case err of
          ErrNoActiveSession \<Rightarrow> RpcError FailedPrecondition ''no active session''
        | ErrSessionExpired \<Rightarrow> RpcError FailedPrecondition ''session expired''
        | ErrValueLimitExceeded \<Rightarrow> RpcError ResourceExhausted ''cumulative value limit exceeded''
        | ErrOpen msg \<Rightarrow> RpcError Internal (''signing failed: '' @ msg)
        | NilLimitPanic \<Rightarrow> RpcPanic)"
  by (cases "Sign Open now v sm") (simp add: SignOrder_def)

text \<open>
  With a non-negative order value, a \<^const>\<open>Sign\<close> call that does not tear an expired
  session down never lowers the counter, in the core and through \<^const>\<open>SignOrder\<close>.
\<close>

lemma Sign_value_used_mono:
  "0 \<le> v \<Longrightarrow> \<not> (enclave sm \<noteq> None \<and> isExpired now sm) \<Longrightarrow>
     valueUsed sm \<le> valueUsed (snd (Sign Open now v sm))"
  by (auto simp: Sign_def Let_def split: sum.splits option.splits)

lemma SignOrder_value_used_mono:
  "SetString (MakerAmount order) = Some v \<Longrightarrow> 0 \<le> v \<Longrightarrow>
     \<not> (enclave sm \<noteq> None \<and> isExpired now sm) \<Longrightarrow>
     valueUsed sm \<le> valueUsed (snd (SignOrder Open now n1 n2 (Some order) sm))"
  by (simp add: SignOrder_state Sign_value_used_mono)

lemma SetString_100: "SetString ''100'' = Some 100"
  by (simp add: SetString_def digit_val_def)

lemma SetString_minus_100: "SetString ''-100'' = Some (- 100)"
  by (simp add: SetString_def digit_val_def)

lemma exec_value_used_nonneg:
  "order_nonneg c \<Longrightarrow> 0 \<le> valueUsed sm \<Longrightarrow> 0 \<le> valueUsed (exec c sm)"
  by (cases c) (auto simp: core_defs Let_def split: option.splits sum.splits)

lemma run_value_used_nonneg:
  "list_all order_nonneg cs \<Longrightarrow> 0 \<le> valueUsed sm \<Longrightarrow> 0 \<le> valueUsed (run cs sm)"
  unfolding run_def
  by (induction cs arbitrary: sm) (simp_all add: exec_value_used_nonneg)

text \<open>
  The nil limit that makes \<^const>\<open>Sign\<close> panic is never met by a manager built with
  \<^const>\<open>NewSessionManager\<close>: an enclave is only ever stored together with a limit.
\<close>

lemma exec_limit_present:
  "enclave sm \<noteq> None \<longrightarrow> maxValueLimit sm \<noteq> None \<Longrightarrow>
     enclave (exec c sm) \<noteq> None \<longrightarrow> maxValueLimit (exec c sm) \<noteq> None"
  by (cases c) (auto simp: core_defs Let_def split: option.splits sum.splits if_splits)

lemma run_limit_present:
  "enclave sm \<noteq> None \<longrightarrow> maxValueLimit sm \<noteq> None \<Longrightarrow>
     enclave (run cs sm) \<noteq> None \<longrightarrow> maxValueLimit (run cs sm) \<noteq> None"
  unfolding run_def
proof (induction cs arbitrary: sm)
  case Nil
  then show ?case by simp
next
  case (Cons c cs)
  from Cons.IH [OF exec_limit_present [OF Cons.prems, of c]] show ?case by simp
qed

lemma reachable_no_panic:
  "fst (Sign Open now v (run cs (NewSessionManager d))) \<noteq> Inl NilLimitPanic"
  using run_limit_present [of "NewSessionManager d" cs]
  by (auto simp: Sign_def NewSessionManager_def Let_def split: option.splits sum.splits)

section \<open>The spend bound\<close>

text \<open>
  Claim C1, as amended. The claim reads: in every state that a sequence of
  \<^verbatim>\<open>Activate\<close>, \<^verbatim>\<open>Sign\<close>, \<^verbatim>\<open>Status\<close> and \<^verbatim>\<open>Destroy\<close> calls reaches and in which a
  session is active, \<^verbatim>\<open>value_used \<le> max_value_limit\<close>. \<^verbatim>\<open>Activate\<close> stores the limit
  it is given without looking at its sign, so this holds of the call sequences whose
  \<^verbatim>\<open>Activate\<close> calls all carry a non-negative limit: there, whenever the manager holds an
  enclave (expired or not), it holds a limit and the counter does not exceed it. The second
  half of the claim holds of every manager and every call: \<^verbatim>\<open>Sign\<close> never returns a
  signature leaving \<^verbatim>\<open>value_used\<close> above \<^verbatim>\<open>max_value_limit\<close>.
\<close>

theorem value_used_within_limit:
  "(list_all limit_nonneg cs \<and> enclave (run cs (NewSessionManager d)) = Some e \<longrightarrow>
      (\<exists>lim. maxValueLimit (run cs (NewSessionManager d)) = Some lim \<and>
             valueUsed (run cs (NewSessionManager d)) \<le> lim))
   \<and> (Sign Open now v sm = (Inr sg, sm') \<longrightarrow>
      (\<exists>lim. maxValueLimit sm' = Some lim \<and> valueUsed sm' \<le> lim))"
proof (intro conjI impI)
  assume a: "list_all limit_nonneg cs \<and> enclave (run cs (NewSessionManager d)) = Some e"
  then have "within_limit (run cs (NewSessionManager d))"
    by (simp add: within_limit_run within_limit_init)
  with a show "\<exists>lim. maxValueLimit (run cs (NewSessionManager d)) = Some lim \<and>
             valueUsed (run cs (NewSessionManager d)) \<le> lim"
    by (auto simp: within_limit_def split: option.splits)
next
  assume "Sign Open now v sm = (Inr sg, sm')"
  from Sign_success [OF this]
  show "\<exists>lim. maxValueLimit sm' = Some lim \<and> valueUsed sm' \<le> lim"
    by auto
qed

text \<open>An instance: activation with limit 100, then a signature over the whole budget.\<close>

theorem value_used_within_limit_witness:
  "list_all limit_nonneg [CallActivate seal_any 0 [1, 2, 3] 100, CallSign open_ok 5 100]
   \<and> enclave (run [CallActivate seal_any 0 [1, 2, 3] 100, CallSign open_ok 5 100]
         (NewSessionManager 60)) = Some (Enclave [1, 2, 3])
   \<and> maxValueLimit (run [CallActivate seal_any 0 [1, 2, 3] 100, CallSign open_ok 5 100]
         (NewSessionManager 60)) = Some 100
   \<and> valueUsed (run [CallActivate seal_any 0 [1, 2, 3] 100, CallSign open_ok 5 100]
         (NewSessionManager 60)) = 100
   \<and> Sign open_ok 5 100 session_100 = (Inr placeholder_signature, session_100\<lparr>valueUsed := 100\<rparr>)
   \<and> maxValueLimit (session_100\<lparr>valueUsed := 100\<rparr>) = Some 100"
  using value_used_within_limit
      [where cs = "[CallActivate seal_any 0 [1, 2, 3] 100, CallSign open_ok 5 100]"
         and d = 60 and e = "Enclave [1, 2, 3]" and Open = open_ok and now = 5 and v = 100
         and sm = session_100 and sg = placeholder_signature
         and sm' = "session_100\<lparr>valueUsed := 100\<rparr>"]
  by (simp add: session_100_eq run_def core_defs NewSessionManager_def seal_any_def open_ok_def)

text \<open>
  The claim as stated fails at \<^verbatim>\<open>Activate(key, -1)\<close> on a new manager: the session is
  active and not expired, \<^verbatim>\<open>value_used\<close> is 0 and \<^verbatim>\<open>max_value_limit\<close> is -1.
\<close>

theorem negative_limit_exceeded_at_activation:
  "enclave session_negative = Some (Enclave [1, 2, 3])
   \<and> \<not> isExpired 0 session_negative
   \<and> maxValueLimit session_negative = Some (- 1)
   \<and> valueUsed session_negative = 0
   \<and> \<not> valueUsed session_negative \<le> - 1"
  by (simp add: session_negative_def run_def core_defs NewSessionManager_def seal_any_def)

section \<open>The limit check of Sign\<close>

text \<open>
  Claim C2. On an active session that is not expired, \<^verbatim>\<open>Sign\<close> fails with
  \<^verbatim>\<open>ErrValueLimitExceeded\<close>, leaving the whole manager as it was, exactly when
  \<^verbatim>\<open>value_used + order_value > max_value_limit\<close>, whatever the enclave does. When the
  sum equals the limit the check passes and, the enclave opening, \<^verbatim>\<open>Sign\<close> returns the
  signature and commits the sum; one unit above the limit it fails. An active session is
  one whose enclave is held; it then has a limit (\<open>run_limit_present\<close>).
\<close>

theorem Sign_limit_check:
  assumes "enclave sm = Some e" and "\<not> isExpired now sm" and "maxValueLimit sm = Some lim"
  shows "(Sign Open now v sm = (Inl ErrValueLimitExceeded, sm)) = (valueUsed sm + v > lim)
       \<and> (fst (Sign Open now v sm) = Inl ErrValueLimitExceeded) = (valueUsed sm + v > lim)
       \<and> (valueUsed sm + v = lim \<and> Open e = Inr buf \<longrightarrow>
            Sign Open now v sm = (Inr placeholder_signature, sm\<lparr>valueUsed := lim\<rparr>))
       \<and> (valueUsed sm + v = lim + 1 \<longrightarrow> Sign Open now v sm = (Inl ErrValueLimitExceeded, sm))"
  using assms by (auto simp: Sign_def Let_def split: sum.splits)

text \<open>The scenario of the specification: limit 100, \<^verbatim>\<open>Sign(100)\<close> succeeds, then
  \<^verbatim>\<open>Sign(1)\<close> fails.\<close>

theorem Sign_limit_check_witness:
  "enclave session_100 = Some (Enclave [1, 2, 3]) \<and> \<not> isExpired 5 session_100
   \<and> maxValueLimit session_100 = Some 100
   \<and> valueUsed session_100 + 100 = 100 \<and> open_ok (Enclave [1, 2, 3]) = Inr [1, 2, 3]
   \<and> Sign open_ok 5 100 session_100 = (Inr placeholder_signature, session_100\<lparr>valueUsed := 100\<rparr>)
   \<and> valueUsed session_full + 1 = 100 + 1
   \<and> Sign open_ok 6 1 session_full = (Inl ErrValueLimitExceeded, session_full)"
  using Sign_limit_check [where sm = session_100 and e = "Enclave [1, 2, 3]" and now = 5
        and lim = 100 and Open = open_ok and v = 100 and buf = "[1, 2, 3]"]
    Sign_limit_check [where sm = session_full and e = "Enclave [1, 2, 3]" and now = 6
        and lim = 100 and Open = open_ok and v = 1 and buf = "[1, 2, 3]"]
  by (simp add: session_full_eq session_100_eq isExpired_def open_ok_def)

section \<open>A failed signing step does not spend\<close>

text \<open>
  Claim C3. The only step of \<^verbatim>\<open>Sign\<close> that can fail after the limit check is the opening
  of the enclave (the signature itself is a placeholder in the source). When a call reaches
  that step and it fails, \<^verbatim>\<open>Sign\<close> returns the library's error and the manager is
  unchanged, \<^verbatim>\<open>value_used\<close> included. More generally a \<^verbatim>\<open>Sign\<close> that returns any failure
  other than \<^verbatim>\<open>ErrSessionExpired\<close> leaves the manager as it was: the sum is committed
  only on the path that has produced the signature.
\<close>

theorem Sign_open_failure_keeps_budget:
  "(enclave sm = Some e \<and> \<not> isExpired now sm \<and> maxValueLimit sm = Some lim \<and>
      valueUsed sm + v \<le> lim \<and> Open e = Inl msg \<longrightarrow>
        Sign Open now v sm = (Inl (ErrOpen msg), sm))
   \<and> (fst (Sign Open now v sm) = Inl err \<and> err \<noteq> ErrSessionExpired \<longrightarrow>
        snd (Sign Open now v sm) = sm)"
  by (auto simp: Sign_def Let_def split: sum.splits option.splits if_splits)

theorem Sign_open_failure_keeps_budget_witness:
  "enclave session_100 = Some (Enclave [1, 2, 3]) \<and> \<not> isExpired 5 session_100
   \<and> maxValueLimit session_100 = Some 100 \<and> valueUsed session_100 + 40 \<le> 100
   \<and> open_fails (Enclave [1, 2, 3]) = Inl ''decryption failed''
   \<and> Sign open_fails 5 40 session_100 = (Inl (ErrOpen ''decryption failed''), session_100)
   \<and> fst (Sign open_fails 5 40 session_100) = Inl (ErrOpen ''decryption failed'')
   \<and> ErrOpen ''decryption failed'' \<noteq> ErrSessionExpired
   \<and> snd (Sign open_fails 5 40 session_100) = session_100"
  using Sign_open_failure_keeps_budget
      [where sm = session_100 and e = "Enclave [1, 2, 3]" and now = 5 and lim = 100 and v = 40
         and Open = open_fails and msg = "''decryption failed''"
         and err = "ErrOpen ''decryption failed''"]
  by (simp add: session_100_eq isExpired_def open_fails_def)

section \<open>How the spend counter moves\<close>

text \<open>
  Claim C4. The claim reads: \<^verbatim>\<open>value_used\<close> is a non-negative integer and no \<^verbatim>\<open>Sign\<close>
  call, over the order values the facade lets through to the core, decreases it. The code
  does not keep it. \<^verbatim>\<open>SignOrder\<close> parses \<^verbatim>\<open>MakerAmount\<close> with a parser that accepts a
  sign and never looks at the sign of the result, and \<^verbatim>\<open>Sign\<close> adds the value as it
  comes. At the amount \<^verbatim>\<open>"-5"\<close>, on a session of limit 100 that is not expired, the call
  returns a signature and takes the counter of the cumulative value signed from 10 down
  to 5, and from 0 down to -5. With the amounts 100, -100 and 100 the same session signs
  three orders, the first and the last each for the whole budget.
\<close>

theorem negative_maker_amount_lowers_value_used:
  "SetString ''-5'' = Some (- 5)
   \<and> maxValueLimit session_10 = Some 100 \<and> valueUsed session_10 = 10
   \<and> SignOrder open_ok 6 6 6 (Some \<lparr>MakerAmount = ''-5''\<rparr>) session_10
       = (Response placeholder_signature zero_address, session_10\<lparr>valueUsed := 5\<rparr>)
   \<and> valueUsed session_100 = 0
   \<and> SignOrder open_ok 6 6 6 (Some \<lparr>MakerAmount = ''-5''\<rparr>) session_100
       = (Response placeholder_signature zero_address, session_100\<lparr>valueUsed := - 5\<rparr>)
   \<and> SignOrder open_ok 6 6 6 (Some \<lparr>MakerAmount = ''100''\<rparr>) session_100
       = (Response placeholder_signature zero_address, session_full)
   \<and> SignOrder open_ok 7 7 7 (Some \<lparr>MakerAmount = ''-100''\<rparr>) session_full
       = (Response placeholder_signature zero_address, session_100)
   \<and> SignOrder open_ok 8 8 8 (Some \<lparr>MakerAmount = ''100''\<rparr>) session_100
       = (Response placeholder_signature zero_address, session_full)"
  by (simp add: SetString_minus_5 SetString_100 SetString_minus_100 session_10_eq session_full_eq
      session_100_eq SignOrder_def core_defs open_ok_def)

section \<open>Status after expiry\<close>

text \<open>
  Claim C5, as amended. The claim reads: \<^verbatim>\<open>Status\<close>, called after the TTL has elapsed,
  tears the expired session down as \<^verbatim>\<open>Sign\<close> does and reports the inactive shape.
  \<^verbatim>\<open>Status\<close> is a read-only snapshot taken under the read lock: called on a held session
  after expiry it reports the inactive shape (\<^verbatim>\<open>active=false\<close>, remaining time 0, both
  amounts \<^verbatim>\<open>"0"\<close>, empty address) and leaves the manager exactly as it was, the sealed key
  included.
\<close>

theorem Status_after_expiry:
  "enclave sm = Some e \<and> isExpired now1 sm \<longrightarrow>
     Status now1 now2 sm = ((False, 0, ''0'', ''0'', []), sm)"
  by (simp add: Status_def inactive_reply_def)

theorem Status_after_expiry_witness:
  "enclave session_10 = Some (Enclave [1, 2, 3]) \<and> isExpired 61 session_10
   \<and> Status 61 62 session_10 = ((False, 0, ''0'', ''0'', []), session_10)"
  using Status_after_expiry
      [where sm = session_10 and e = "Enclave [1, 2, 3]" and ?now1.0 = 61 and ?now2.0 = 62]
  by (simp add: session_10_eq session_100_eq isExpired_def)

text \<open>
  The claim as stated fails on the session activated at 0 with TTL 60, at instant 61:
  after \<^verbatim>\<open>Status\<close> the manager still holds the enclave, the limit and the counter, and
  is not the torn-down manager. The difference shows in the next \<^verbatim>\<open>Sign\<close>, which answers
  \<^verbatim>\<open>ErrSessionExpired\<close> where a torn-down manager answers \<^verbatim>\<open>ErrNoActiveSession\<close>.
\<close>

theorem Status_keeps_expired_session:
  "isExpired 61 session_10
   \<and> fst (Status 61 61 session_10) = (False, 0, ''0'', ''0'', [])
   \<and> enclave (snd (Status 61 61 session_10)) = Some (Enclave [1, 2, 3])
   \<and> valueUsed (snd (Status 61 61 session_10)) = 10
   \<and> maxValueLimit (snd (Status 61 61 session_10)) = Some 100
   \<and> snd (Status 61 61 session_10) \<noteq> destroyLocked session_10
   \<and> fst (Sign open_ok 62 1 (snd (Status 61 61 session_10))) = Inl ErrSessionExpired
   \<and> fst (Sign open_ok 62 1 (destroyLocked session_10)) = Inl ErrNoActiveSession"
  by (simp add: session_10_eq session_100_eq core_defs inactive_reply_def)

section \<open>The instant of expiry\<close>

text \<open>
  Claim C6, as amended. The claim reads: every operation treats the session as expired
  exactly when \<^verbatim>\<open>now \<ge> expires_at\<close>. The test of the source is
  \<^verbatim>\<open>time.Now().After(expiresAt)\<close>, which is strict: on a held session, \<^verbatim>\<open>Sign\<close> answers
  \<^verbatim>\<open>ErrSessionExpired\<close>, and then destroys the session, exactly when
  \<^verbatim>\<open>now > expires_at\<close>, and \<^verbatim>\<open>Status\<close> reports \<^verbatim>\<open>active=true\<close> exactly when
  \<^verbatim>\<open>now \<le> expires_at\<close>. At the instant \<^verbatim>\<open>now = expires_at\<close> the session is still valid.
\<close>

theorem expiry_is_strict:
  "enclave sm = Some e \<longrightarrow>
     (fst (Sign Open now v sm) = Inl ErrSessionExpired) = (expiresAt sm < now)
     \<and> (Sign Open now v sm = (Inl ErrSessionExpired, destroyLocked sm)) = (expiresAt sm < now)
     \<and> fst (fst (Status now now2 sm)) = (now \<le> expiresAt sm)"
  by (auto simp: core_defs inactive_reply_def Let_def split: sum.splits option.splits)

theorem expiry_is_strict_witness:
  "enclave session_10 = Some (Enclave [1, 2, 3])
   \<and> expiresAt session_10 = 60
   \<and> Sign open_ok 61 1 session_10 = (Inl ErrSessionExpired, destroyLocked session_10)
   \<and> fst (Status 61 61 session_10) = (False, 0, ''0'', ''0'', [])"
  using expiry_is_strict
      [where sm = session_10 and e = "Enclave [1, 2, 3]" and now = 61 and ?now2.0 = 61
         and Open = open_ok and v = 1]
  by (simp add: session_10_eq session_100_eq Status_def isExpired_def inactive_reply_def)

text \<open>
  The claim as stated fails at \<^verbatim>\<open>now = expires_at = 60\<close>: \<^verbatim>\<open>Sign\<close> returns a signature
  and commits the value, and \<^verbatim>\<open>Status\<close> reports an active session.
\<close>

theorem not_expired_at_expires_at:
  "expiresAt session_10 = 60
   \<and> Sign open_ok 60 1 session_10 = (Inr placeholder_signature, session_10\<lparr>valueUsed := 11\<rparr>)
   \<and> Status 60 60 session_10 = ((True, 0, ''100'', ''10'', zero_address), session_10)"
  by (simp add: session_10_eq session_100_eq core_defs open_ok_def Ptr_String_def Int_String_def
      digits10.simps digit_char_def)

section \<open>The status codes of the facade\<close>

text \<open>
  Claim C7, as amended. The claim reads: \<^verbatim>\<open>SignOrder\<close> gives each of the four core
  errors a status category of its own. The category is the gRPC code, and
  \<^verbatim>\<open>SignOrder\<close> uses three codes for the four errors: \<^verbatim>\<open>FailedPrecondition\<close> for both
  \<^verbatim>\<open>ErrNoActiveSession\<close> and \<^verbatim>\<open>ErrSessionExpired\<close>, \<^verbatim>\<open>ResourceExhausted\<close> for
  \<^verbatim>\<open>ErrValueLimitExceeded\<close>, \<^verbatim>\<open>Internal\<close> for a failure of the signing step. So two
  failed calls get the same code exactly when their core errors are of the same kind or
  are the pair no-session and expired; that pair is told apart by the message only, and
  code and message together determine the core error.
\<close>

theorem SignOrder_error_categories:
  assumes "SetString (MakerAmount order1) = Some v1"
      and "SetString (MakerAmount order2) = Some v2"
      and "fst (Sign Open1 t1 v1 sm1) = Inl err1"
      and "fst (Sign Open2 t2 v2 sm2) = Inl err2"
      and "err1 \<noteq> NilLimitPanic" and "err2 \<noteq> NilLimitPanic"
  shows "\<exists>c1 m1 c2 m2.
           fst (SignOrder Open1 t1 a1 b1 (Some order1) sm1) = RpcError c1 m1
         \<and> fst (SignOrder Open2 t2 a2 b2 (Some order2) sm2) = RpcError c2 m2
         \<and> (c1 = c2) =
             ((err1 \<in> {ErrNoActiveSession, ErrSessionExpired} \<and>
               err2 \<in> {ErrNoActiveSession, ErrSessionExpired})
              \<or> (err1 = ErrValueLimitExceeded \<and> err2 = ErrValueLimitExceeded)
              \<or> (\<exists>x y. err1 = ErrOpen x \<and> err2 = ErrOpen y))
         \<and> ((c1, m1) = (c2, m2)) = (err1 = err2)"
  using assms(5,6)
  unfolding SignOrder_failure [OF assms(1) assms(3)] SignOrder_failure [OF assms(2) assms(4)]
  by (cases err1; cases err2) simp_all

theorem SignOrder_error_categories_witness:
  "SetString (MakerAmount \<lparr>MakerAmount = ''5''\<rparr>) = Some 5
   \<and> fst (Sign open_ok 6 5 session_full) = Inl ErrValueLimitExceeded
   \<and> fst (Sign open_fails 6 5 session_10) = Inl (ErrOpen ''decryption failed'')
   \<and> fst (SignOrder open_ok 6 6 6 (Some \<lparr>MakerAmount = ''5''\<rparr>) session_full)
       = RpcError ResourceExhausted ''cumulative value limit exceeded''
   \<and> fst (SignOrder open_fails 6 6 6 (Some \<lparr>MakerAmount = ''5''\<rparr>) session_10)
       = RpcError Internal ''signing failed: decryption failed''"
  using SignOrder_error_categories
      [where ?order1.0 = "\<lparr>MakerAmount = ''5''\<rparr>" and ?v1.0 = 5
         and ?order2.0 = "\<lparr>MakerAmount = ''5''\<rparr>" and ?v2.0 = 5
         and ?Open1.0 = open_ok and ?t1.0 = 6 and ?sm1.0 = session_full
         and ?err1.0 = ErrValueLimitExceeded
         and ?Open2.0 = open_fails and ?t2.0 = 6 and ?sm2.0 = session_10
         and ?err2.0 = "ErrOpen ''decryption failed''"
         and ?a1.0 = 6 and ?b1.0 = 6 and ?a2.0 = 6 and ?b2.0 = 6]
  by (simp add: SetString_5 session_full_eq session_10_eq session_100_eq SignOrder_def
      Sign_def isExpired_def open_ok_def open_fails_def)

text \<open>
  The claim as stated fails on the pair \<^verbatim>\<open>ErrNoActiveSession\<close> (a new manager) and
  \<^verbatim>\<open>ErrSessionExpired\<close> (the sample session at instant 61): both calls of
  \<^verbatim>\<open>SignOrder\<close> return the code \<^verbatim>\<open>FailedPrecondition\<close>.
\<close>

theorem no_session_and_expired_share_a_code:
  "fst (Sign open_ok 6 5 (NewSessionManager 60)) = Inl ErrNoActiveSession
   \<and> fst (Sign open_ok 61 5 session_10) = Inl ErrSessionExpired
   \<and> fst (SignOrder open_ok 6 6 6 (Some \<lparr>MakerAmount = ''5''\<rparr>) (NewSessionManager 60))
       = RpcError FailedPrecondition ''no active session''
   \<and> fst (SignOrder open_ok 61 61 61 (Some \<lparr>MakerAmount = ''5''\<rparr>) session_10)
       = RpcError FailedPrecondition ''session expired''"
  by (simp add: SetString_5 session_10_eq session_100_eq SignOrder_def Sign_def isExpired_def
      NewSessionManager_def)

section \<open>Activation\<close>

text \<open>
  Claim C8, as amended. The claim reads: from every prior state \<^verbatim>\<open>Activate\<close> discards the
  prior session, seals the new key, sets the expiry and resets the counter, so that a
  \<^verbatim>\<open>Status\<close> taken next reports \<^verbatim>\<open>active=true\<close> and \<^verbatim>\<open>value_used="0"\<close>. The first
  half holds as it reads: from every prior manager, a held and still valid session
  included, \<^verbatim>\<open>Activate\<close> returns no error and leaves a manager that depends on the prior
  one through its TTL only, with the enclave that the sealing call returned for the new
  key, \<^verbatim>\<open>expires_at\<close> the clock reading plus the TTL, the limit given and a zero counter.
  The \<^verbatim>\<open>Status\<close> taken next reports \<^verbatim>\<open>active=true\<close> exactly when the sealing call
  returned an enclave (not nil) and the clock reading of \<^verbatim>\<open>Status\<close> is not after
  \<^verbatim>\<open>expires_at\<close>; it then reports \<^verbatim>\<open>value_used="0"\<close>, the limit given and the address.
\<close>

theorem Activate_replaces_session:
  "Activate NewEnclave now keyBytes lim sm =
     (None, \<lparr>enclave = NewEnclave keyBytes, address = zero_address, expiresAt = now + ttl sm,
             maxValueLimit = Some lim, valueUsed = 0, ttl = ttl sm\<rparr>)
   \<and> fst (fst (Status now1 now2 (snd (Activate NewEnclave now keyBytes lim sm)))) =
       (NewEnclave keyBytes \<noteq> None \<and> now1 \<le> now + ttl sm)
   \<and> (NewEnclave keyBytes = Some e \<and> now1 \<le> now + ttl sm \<longrightarrow>
        (\<exists>remaining.
           fst (Status now1 now2 (snd (Activate NewEnclave now keyBytes lim sm))) =
             (True, remaining, Int_String lim, ''0'', zero_address)))"
  by (cases sm; cases "NewEnclave keyBytes")
     (auto simp: Activate_def Status_def isExpired_def inactive_reply_def Ptr_String_def
        Int_String_def digits10.simps digit_char_def Let_def)

text \<open>An instance on a prior session that is valid and has spent 10 of its budget.\<close>

theorem Activate_replaces_session_witness:
  "seal_any [9, 9] = Some (Enclave [9, 9]) \<and> (10::int) \<le> 10 + ttl session_10
   \<and> enclave session_10 = Some (Enclave [1, 2, 3]) \<and> \<not> isExpired 10 session_10
   \<and> valueUsed session_10 = 10
   \<and> Activate seal_any 10 [9, 9] 50 session_10 =
       (None, \<lparr>enclave = Some (Enclave [9, 9]), address = zero_address, expiresAt = 70,
               maxValueLimit = Some 50, valueUsed = 0, ttl = 60\<rparr>)
   \<and> fst (Status 10 10 (snd (Activate seal_any 10 [9, 9] 50 session_10))) =
       (True, 0, ''50'', ''0'', zero_address)"
  using Activate_replaces_session
      [where NewEnclave = seal_any and now = 10 and keyBytes = "[9, 9]" and lim = 50
         and sm = session_10 and e = "Enclave [9, 9]" and ?now1.0 = 10 and ?now2.0 = 10]
  by (simp add: session_10_eq session_100_eq seal_any_def isExpired_def Status_def Activate_def
      Ptr_String_def Int_String_def digits10.simps digit_char_def)

text \<open>
  The claim as stated fails in two places. With an empty key the sealing call returns nil:
  \<^verbatim>\<open>Activate\<close> stores it, and the \<^verbatim>\<open>Status\<close> taken at the same instant reports
  \<^verbatim>\<open>active=false\<close>. On a manager of TTL 0 the session expires at the instant of its
  activation, and a \<^verbatim>\<open>Status\<close> taken one nanosecond later reports \<^verbatim>\<open>active=false\<close>.
\<close>

theorem Status_inactive_right_after_Activate:
  "seal_nonempty [] = None
   \<and> Activate seal_nonempty 0 [] 100 (NewSessionManager 60) =
       (None, \<lparr>enclave = None, address = zero_address, expiresAt = 60,
               maxValueLimit = Some 100, valueUsed = 0, ttl = 60\<rparr>)
   \<and> fst (Status 0 0 (snd (Activate seal_nonempty 0 [] 100 (NewSessionManager 60)))) =
       (False, 0, ''0'', ''0'', [])
   \<and> seal_nonempty [1, 2, 3] = Some (Enclave [1, 2, 3])
   \<and> Activate seal_nonempty 0 [1, 2, 3] 100 (NewSessionManager 0) =
       (None, \<lparr>enclave = Some (Enclave [1, 2, 3]), address = zero_address, expiresAt = 0,
               maxValueLimit = Some 100, valueUsed = 0, ttl = 0\<rparr>)
   \<and> fst (Status 1 1 (snd (Activate seal_nonempty 0 [1, 2, 3] 100 (NewSessionManager 0)))) =
       (False, 0, ''0'', ''0'', [])"
  by (simp add: seal_nonempty_def Activate_def Status_def isExpired_def inactive_reply_def
      NewSessionManager_def)




section \<open>Teardown\<close>

text \<open>
  Claim C9. \<^verbatim>\<open>Destroy\<close> is idempotent; from every manager it produces the manager with
  no enclave, no address, no limit and a zero counter (the expiry instant and the TTL stay,
  and are not read while no enclave is held); a \<^verbatim>\<open>Sign\<close> after \<^verbatim>\<open>Destroy\<close> answers
  \<^verbatim>\<open>ErrNoActiveSession\<close> whatever the prior session was, and \<^verbatim>\<open>Status\<close> reports the
  inactive shape.
\<close>

theorem Destroy_idempotent:
  "Destroy (Destroy sm) = Destroy sm
   \<and> Destroy sm = \<lparr>enclave = None, address = [], expiresAt = expiresAt sm,
                    maxValueLimit = None, valueUsed = 0, ttl = ttl sm\<rparr>
   \<and> Sign Open now v (Destroy sm) = (Inl ErrNoActiveSession, Destroy sm)
   \<and> fst (Status now1 now2 (Destroy sm)) = (False, 0, ''0'', ''0'', [])"
  by (cases sm) (simp add: Destroy_def destroyLocked_def Sign_def Status_def inactive_reply_def)

end
